theory Spec2Isabelle
  imports
    Main
    "HOL-Library.AList"
    "HOL-Library.Char_ord"
    "HOL-Library.List_Lexorder"
    "HOL-Library.Product_Lexorder"
    "HOL-Library.Multiset"
begin

section \<open>Strings\<close>

text \<open>
  Python strings are modelled as \<^typ>\<open>string\<close> restricted to ASCII: \<open>str.lower\<close> maps
  \<open>A..Z\<close> to \<open>a..z\<close> and leaves every other character alone, \<open>str.strip\<close> removes
  the ASCII characters for which \<open>str.isspace\<close> holds (9 to 13 and 28 to 32).
\<close>

definition isspace :: "char \<Rightarrow> bool" where
  "isspace c = (let n = (of_char c :: nat) in (9 \<le> n \<and> n \<le> 13) \<or> (28 \<le> n \<and> n \<le> 32))"

definition strip :: "string \<Rightarrow> string" where
  "strip s = rev (dropWhile isspace (rev (dropWhile isspace s)))"

definition lower_char :: "char \<Rightarrow> char" where
  "lower_char c = (let n = (of_char c :: nat) in if 65 \<le> n \<and> n \<le> 90 then char_of (n + 32) else c)"

definition lower :: "string \<Rightarrow> string" where
  "lower s = map lower_char s"

text \<open>\<open>s.replace(a, b)\<close> for one-character \<open>a\<close> and \<open>b\<close>.\<close>

definition replace_char :: "char \<Rightarrow> char \<Rightarrow> string \<Rightarrow> string" where
  "replace_char a b s = map (\<lambda>c. if c = a then b else c) s"

text \<open>\<open>s.startswith(p)\<close> and \<open>sub in s\<close> (pandas \<open>str.contains(sub, regex=False)\<close>).\<close>

fun startswith :: "string \<Rightarrow> string \<Rightarrow> bool" where
  "startswith s [] = True"
| "startswith [] (p # ps) = False"
| "startswith (c # cs) (p # ps) = (c = p \<and> startswith cs ps)"

fun contains :: "string \<Rightarrow> string \<Rightarrow> bool" where
  "contains [] sub = (sub = [])"
| "contains (c # cs) sub = (startswith (c # cs) sub \<or> contains cs sub)"

text \<open>\<open>s.split(sep)\<close> for a one-character separator: never empty.\<close>

fun split_on :: "char \<Rightarrow> string \<Rightarrow> string list" where
  "split_on sep [] = [[]]"
| "split_on sep (c # cs) =
     (if c = sep then [] # split_on sep cs
      else (case split_on sep cs of [] \<Rightarrow> [[c]] | w # ws \<Rightarrow> (c # w) # ws))"

text \<open>
  \<open>int(s)\<close> on a string: surrounding white space is dropped, one sign is allowed, the
  rest must be a non-empty run of decimal digits; anything else raises \<open>ValueError\<close>
  (\<open>None\<close>). Digit-group underscores cannot occur here, the argument being a piece of
  a string split at underscores.
\<close>

definition isdigit :: "char \<Rightarrow> bool" where
  "isdigit c = (let n = (of_char c :: nat) in 48 \<le> n \<and> n \<le> 57)"

definition digits_value :: "string \<Rightarrow> nat" where
  "digits_value ds = foldl (\<lambda>acc c. 10 * acc + (of_char c - 48)) 0 ds"

definition py_int :: "string \<Rightarrow> int option" where
  "py_int s =
     (let t = strip s;
          neg = (t \<noteq> [] \<and> hd t = CHR ''-'');
          ds = (if t \<noteq> [] \<and> (hd t = CHR ''-'' \<or> hd t = CHR ''+'') then tl t else t)
      in if ds \<noteq> [] \<and> list_all isdigit ds
         then Some (if neg then - int (digits_value ds) else int (digits_value ds))
         else None)"

text \<open>The format specification \<open>04d\<close>: decimal, zero-padded to width four, sign included.\<close>

fun dec :: "nat \<Rightarrow> string" where
  "dec n = (if n < 10 then [char_of (48 + n)] else dec (n div 10) @ [char_of (48 + n mod 10)])"

definition fmt04d :: "int \<Rightarrow> string" where
  "fmt04d i =
     (if i < 0 then CHR ''-'' # replicate (3 - length (dec (nat (- i)))) CHR ''0'' @ dec (nat (- i))
      else replicate (4 - length (dec (nat i))) CHR ''0'' @ dec (nat i))"

section \<open>Paths\<close>

text \<open>
  A \<open>pathlib\<close> path is the list of its parts, as \<open>PurePosixPath.parts\<close> gives them: the
  root \<open>/\<close> first when the path is absolute, then the segments, with empty segments and
  \<open>.\<close> dropped. \<open>..\<close> is kept as a segment, as \<open>pathlib\<close> keeps it.
\<close>

type_synonym path = "string list"

definition is_abs :: "string \<Rightarrow> bool" where
  "is_abs s = startswith s ''/''"

definition path_parts :: "string \<Rightarrow> path" where
  "path_parts s =
     (if is_abs s then [''/''] else []) @ filter (\<lambda>x. x \<noteq> [] \<and> x \<noteq> ''.'') (split_on CHR ''/'' s)"

text \<open>\<open>p / s\<close>: an absolute right operand replaces the left one.\<close>

definition joinpath :: "path \<Rightarrow> string \<Rightarrow> path" where
  "joinpath p s = (if is_abs s then path_parts s else p @ path_parts s)"

text \<open>\<open>p.name\<close>: the last part, unless the path is empty or only the root.\<close>

definition name :: "path \<Rightarrow> string" where
  "name p = (if p = [] \<or> p = [''/''] then [] else last p)"

section \<open>Tables and the filesystem\<close>

text \<open>
  A row of the metadata table has the three required columns and the cells of the
  other columns. A cell of \<open>speaker\<close> or \<open>audio_source\<close> may be missing (\<open>NaN\<close> in the
  data frame): \<open>None\<close>.
\<close>

record row =
  audio_path :: string
  speaker :: "string option"
  audio_source :: "string option"
  others :: "string list"

record table =
  columns :: "string list"
  rows :: "row list"

text \<open>
  A filesystem is an association list from paths to nodes, with at most one entry for
  a path. A regular file is a table (a \<open>.csv\<close> or \<open>.parquet\<close> file) or a blob (a \<open>.wav\<close>
  file) with some content.
\<close>

datatype node = Dir | Blob nat | Tab table

type_synonym fs = "(path \<times> node) list"

definition exists :: "fs \<Rightarrow> path \<Rightarrow> bool" where
  "exists f p = (map_of f p \<noteq> None)"

definition is_dir :: "fs \<Rightarrow> path \<Rightarrow> bool" where
  "is_dir f p = (map_of f p = Some Dir)"

text \<open>
  The ways a run ends early: the \<open>sys.exit\<close> calls of the scripts, the \<open>ValueError\<close>
  of \<open>range\<close> with step zero, and the failure to read a table from a node that is not one.
\<close>

datatype fatal =
    MetadataCsvNotFound
  | MissingColumns "string list"
  | WavsDirNotFound
  | MetadataDirNotFound
  | NoParquetFiles
  | NoRowsMatch
  | ValueError
  | ReadError

text \<open>\<open>sys.exit\<close> with a message and an uncaught exception both end the process with status 1.\<close>

definition exit_status :: "fatal option \<Rightarrow> nat" where
  "exit_status r = (case r of Some e \<Rightarrow> 1 | None \<Rightarrow> 0)"

section \<open>unpack.py: the filter engine\<close>

text \<open>
  \<open>apply_filters\<close>: each filter is applied when its argument is truthy (neither \<open>None\<close>
  nor the empty string): the three data frames \<open>df = df[...]\<close> in turn. A missing
  speaker cell lower-cases to a missing value, which equals nothing.
\<close>

definition apply_filters ::
  "table \<Rightarrow> string option \<Rightarrow> string option \<Rightarrow> string option \<Rightarrow> fatal + table" where
  "apply_filters df speaker_arg audio_source_arg batch_arg =
     (let df1 = (case speaker_arg of
                   None \<Rightarrow> df
                 | Some s \<Rightarrow>
                     if s = [] then df
                     else df\<lparr>rows := filter (\<lambda>r. map_option lower (speaker r) = Some (lower s)) (rows df)\<rparr>);
          df2 = (case audio_source_arg of
                   None \<Rightarrow> df1
                 | Some a \<Rightarrow>
                     if a = [] then df1
                     else df1\<lparr>rows := filter (\<lambda>r. map_option lower (audio_source r) = Some (lower a)) (rows df1)\<rparr>);
          df3 = (case batch_arg of
                   None \<Rightarrow> df2
                 | Some b \<Rightarrow>
                     if b = [] then df2
                     else df2\<lparr>rows := filter (\<lambda>r. contains (audio_path r) (''/'' @ b @ ''/'')) (rows df2)\<rparr>)
      in if rows df3 = [] then Inl NoRowsMatch else Inr df3)"

text \<open>
  The filter as the specification words it: a filter is given when it is a non-empty
  string; a row is kept when every given filter accepts it.
\<close>

definition given :: "string option \<Rightarrow> bool" where
  "given a = (a \<noteq> None \<and> a \<noteq> Some [])"

definition ci_equal :: "string option \<Rightarrow> string \<Rightarrow> bool" where
  "ci_equal cell s = (case cell of None \<Rightarrow> False | Some v \<Rightarrow> lower v = lower s)"

definition has_segment :: "string \<Rightarrow> string \<Rightarrow> bool" where
  "has_segment p b = contains p (''/'' @ b @ ''/'')"

definition row_kept :: "string option \<Rightarrow> string option \<Rightarrow> string option \<Rightarrow> row \<Rightarrow> bool" where
  "row_kept speaker_arg audio_source_arg batch_arg r =
     ((given speaker_arg \<longrightarrow> ci_equal (speaker r) (the speaker_arg)) \<and>
      (given audio_source_arg \<longrightarrow> ci_equal (audio_source r) (the audio_source_arg)) \<and>
      (given batch_arg \<longrightarrow> has_segment (audio_path r) (the batch_arg)))"

definition filtered_rows :: "table \<Rightarrow> string option \<Rightarrow> string option \<Rightarrow> string option \<Rightarrow> row list" where
  "filtered_rows df speaker_arg audio_source_arg batch_arg =
     (case apply_filters df speaker_arg audio_source_arg batch_arg of
        Inl e \<Rightarrow> [] | Inr t \<Rightarrow> rows t)"

section \<open>Filesystem operations\<close>

text \<open>
  The scripts read one tree and write another: \<open>pack\<close> reads the flat source and
  writes the partitioned output, \<open>unpack\<close> reads the partitioned dataset and writes the
  flat output. The two trees are kept as two filesystems, so a write never changes
  what is read from the source side. \<open>mkdir\<close>, \<open>copy2\<close> and the table writers are
  modelled where the operating system lets them succeed.
\<close>

text \<open>\<open>d.iterdir()\<close>: the entries directly below \<open>d\<close>.\<close>

definition iterdir :: "fs \<Rightarrow> path \<Rightarrow> path list" where
  "iterdir f d = filter (\<lambda>p. p \<noteq> [] \<and> butlast p = d) (map fst f)"

text \<open>\<open>p.mkdir(parents=True, exist_ok=True)\<close>: every missing ancestor, then \<open>p\<close>.\<close>

definition add_dir :: "fs \<Rightarrow> path \<Rightarrow> fs" where
  "add_dir f p = (if exists f p then f else f @ [(p, Dir)])"

definition mkdir_p :: "fs \<Rightarrow> path \<Rightarrow> fs" where
  "mkdir_p f p = foldl add_dir f (map (\<lambda>n. take n p) [1 ..< Suc (length p)])"

text \<open>\<open>shutil.copy2(s, d)\<close>, the source read in \<open>g\<close> and the destination written in \<open>f\<close>.\<close>

definition copy2 :: "fs \<Rightarrow> fs \<Rightarrow> path \<Rightarrow> path \<Rightarrow> fs" where
  "copy2 g f s d = (case map_of g s of None \<Rightarrow> f | Some n \<Rightarrow> AList.update d n f)"

definition write_table :: "fs \<Rightarrow> path \<Rightarrow> table \<Rightarrow> fs" where
  "write_table f p t = AList.update p (Tab t) f"

definition read_table :: "fs \<Rightarrow> path \<Rightarrow> fatal + table" where
  "read_table f p = (case map_of f p of Some (Tab t) \<Rightarrow> Inr t | _ \<Rightarrow> Inl ReadError)"

section \<open>The state of a run\<close>

text \<open>
  The lines a run prints, as far as they carry a decision: warnings, the dry-run
  lines, the saved-metadata lines and the summary.
\<close>

datatype line =
    Warn path
  | DryCopy path path
  | DryMetadata path nat
  | SavedMetadata path nat
  | Done nat nat
  | Hint
  | DoneDryRun

text \<open>
  A run carries the output filesystem and what it has printed. \<open>copies\<close> and
  \<open>writes\<close> record the calls of \<open>shutil.copy2\<close> and of \<open>to_parquet\<close>/\<open>to_csv\<close> in the
  order they were made.
\<close>

record run =
  out :: fs
  stdout :: "line list"
  copies :: "(path \<times> path) list"
  writes :: "(path \<times> table) list"

record pstate = run +
  moved :: nat
  skipped :: nat

record ustate = run +
  copied :: nat
  missing :: nat

definition truthy :: "string option \<Rightarrow> bool" where
  "truthy a = (case a of None \<Rightarrow> False | Some s \<Rightarrow> s \<noteq> [])"

text \<open>\<open>chunk_copy["audio_path"] = new_audio_paths\<close>: the column is replaced, row by row.\<close>

definition set_audio_paths :: "row list \<Rightarrow> string list \<Rightarrow> row list" where
  "set_audio_paths rs ps = map (\<lambda>(r, p). r\<lparr>audio_path := p\<rparr>) (zip rs ps)"

section \<open>pack.py\<close>

definition sanitise :: "string \<Rightarrow> string" where
  "sanitise v = replace_char CHR ''/'' CHR ''-'' (replace_char CHR '' '' CHR ''_'' (lower (strip v)))"

definition required :: "string list" where
  "required = [''audio_path'', ''speaker'', ''audio_source'']"

definition load_metadata :: "fs \<Rightarrow> path \<Rightarrow> fatal + table" where
  "load_metadata src source_dir =
     (let csv_path = joinpath source_dir ''metadata.csv'' in
      if \<not> exists src csv_path then Inl MetadataCsvNotFound
      else case read_table src csv_path of
             Inl e \<Rightarrow> Inl e
           | Inr df \<Rightarrow>
               (let missing_cols = filter (\<lambda>c. c \<notin> set (columns df)) required in
                if missing_cols \<noteq> [] then Inl (MissingColumns missing_cols) else Inr df))"

definition get_next_batch_num :: "fs \<Rightarrow> path \<Rightarrow> string \<Rightarrow> string \<Rightarrow> int" where
  "get_next_batch_num f output_dir audio_source_seg speaker_seg =
     (let speaker_dir = joinpath (joinpath (joinpath output_dir ''audio'') audio_source_seg) speaker_seg in
      if \<not> exists f speaker_dir then 1
      else foldl (\<lambda>max_num folder.
                    if is_dir f folder \<and> startswith (name folder) ''batch_''
                    then (case py_int (last (split_on CHR ''_'' (name folder))) of
                            Some num \<Rightarrow> max max_num num
                          | None \<Rightarrow> max_num)
                    else max_num)
             0 (iterdir f speaker_dir) + 1)"

text \<open>
  \<open>df.groupby(["audio_source", "speaker"])\<close>: the keys in sorted order, each with its rows
  in table order; a row with a missing key cell is in no group (the default
  \<open>dropna=True\<close>).
\<close>

definition key_of :: "row \<Rightarrow> (string \<times> string) option" where
  "key_of r = (case audio_source r of
                 None \<Rightarrow> None
               | Some a \<Rightarrow> (case speaker r of None \<Rightarrow> None | Some s \<Rightarrow> Some (a, s)))"

definition group_keys :: "row list \<Rightarrow> (string \<times> string) list" where
  "group_keys rs = sort (remdups (List.map_filter key_of rs))"

definition groupby :: "row list \<Rightarrow> ((string \<times> string) \<times> row list) list" where
  "groupby rs = map (\<lambda>k. (k, filter (\<lambda>r. key_of r = Some k) rs)) (group_keys rs)"

text \<open>\<open>range(0, n, step)\<close> and the list of slices \<open>g[i:i+max_rows]\<close> over it.\<close>

definition py_range :: "nat \<Rightarrow> int \<Rightarrow> fatal + nat list" where
  "py_range n step =
     (if step = 0 then Inl ValueError
      else if step < 0 then Inr []
      else Inr (map (\<lambda>k. k * nat step) [0 ..< (n + nat step - 1) div nat step]))"

definition split_chunks :: "int \<Rightarrow> 'a list \<Rightarrow> fatal + 'a list list" where
  "split_chunks max_rows g =
     (case py_range (length g) max_rows of
        Inl e \<Rightarrow> Inl e
      | Inr starts \<Rightarrow> Inr (map (\<lambda>i. take (nat max_rows) (drop i g)) starts))"

definition current_batch :: "string option \<Rightarrow> int \<Rightarrow> nat \<Rightarrow> string" where
  "current_batch exact_batch start_batch_num idx =
     (case exact_batch of
        None \<Rightarrow> ''batch_'' @ fmt04d (start_batch_num + int idx)
      | Some b \<Rightarrow> if b = [] then ''batch_'' @ fmt04d (start_batch_num + int idx) else b)"

text \<open>The body of the loop over the rows of a chunk.\<close>

definition pack_row ::
  "fs \<Rightarrow> path \<Rightarrow> path \<Rightarrow> bool \<Rightarrow> string \<Rightarrow> string \<Rightarrow> string \<Rightarrow>
   pstate \<times> string list \<times> nat \<Rightarrow> row \<Rightarrow> pstate \<times> string list \<times> nat" where
  "pack_row src wavs_dir output_dir dry_run audio_source_seg speaker_seg batch acc r =
     (case acc of (st, new_audio_paths, chunk_moved) \<Rightarrow>
        (let original_rel = audio_path r;
             wav_filename = name (path_parts original_rel);
             src_file = joinpath wavs_dir wav_filename
         in if \<not> exists src src_file
            then (st\<lparr>stdout := stdout st @ [Warn src_file], skipped := skipped st + 1\<rparr>,
                  new_audio_paths @ [original_rel], chunk_moved)
            else
              (let dest_dir = joinpath (joinpath (joinpath (joinpath output_dir ''audio'')
                                audio_source_seg) speaker_seg) batch;
                   dest_file = joinpath dest_dir wav_filename;
                   new_rel = ''audio/'' @ audio_source_seg @ ''/'' @ speaker_seg @ ''/'' @ batch
                               @ ''/'' @ wav_filename
               in if dry_run
                  then (st\<lparr>stdout := stdout st @ [DryCopy src_file dest_file]\<rparr>,
                        new_audio_paths @ [new_rel], chunk_moved)
                  else (st\<lparr>out := copy2 src (mkdir_p (out st) dest_dir) src_file dest_file,
                           copies := copies st @ [(src_file, dest_file)]\<rparr>,
                        new_audio_paths @ [new_rel], chunk_moved + 1))))"

text \<open>The body of the loop over the chunks of a group.\<close>

definition pack_chunk ::
  "fs \<Rightarrow> path \<Rightarrow> path \<Rightarrow> bool \<Rightarrow> string list \<Rightarrow> string \<Rightarrow> string \<Rightarrow> string option \<Rightarrow> int \<Rightarrow>
   pstate \<Rightarrow> nat \<times> row list \<Rightarrow> pstate" where
  "pack_chunk src wavs_dir output_dir dry_run cols audio_source_seg speaker_seg exact_batch
     start_batch_num st ic =
     (case ic of (idx, chunk) \<Rightarrow>
        (let batch = current_batch exact_batch start_batch_num idx;
             (st1, new_audio_paths, chunk_moved) =
                foldl (pack_row src wavs_dir output_dir dry_run audio_source_seg speaker_seg batch)
                  (st, [], 0) chunk;
             st2 = st1\<lparr>moved := moved st1 + chunk_moved\<rparr>;
             chunk_copy = \<lparr>columns = cols, rows = set_audio_paths chunk new_audio_paths\<rparr>;
             parquet_name = audio_source_seg @ ''_'' @ speaker_seg @ ''_'' @ batch @ ''.parquet'';
             parquet_path = joinpath (joinpath output_dir ''metadata'') parquet_name
         in if dry_run
            then st2\<lparr>stdout := stdout st2 @ [DryMetadata parquet_path (length (rows chunk_copy))]\<rparr>
            else st2\<lparr>out := write_table (out st2) parquet_path chunk_copy,
                     writes := writes st2 @ [(parquet_path, chunk_copy)],
                     stdout := stdout st2 @ [SavedMetadata parquet_path (length (rows chunk_copy))]\<rparr>))"

text \<open>The body of the loop over the groups.\<close>

definition pack_group ::
  "fs \<Rightarrow> path \<Rightarrow> path \<Rightarrow> bool \<Rightarrow> string list \<Rightarrow> string option \<Rightarrow> int \<Rightarrow>
   pstate \<Rightarrow> (string \<times> string) \<times> row list \<Rightarrow> fatal + pstate" where
  "pack_group src wavs_dir output_dir dry_run cols exact_batch max_rows st g =
     (case g of ((raw_audio_source, raw_speaker), group_df) \<Rightarrow>
        (let audio_source_seg = sanitise raw_audio_source;
             speaker_seg = sanitise raw_speaker
         in case (if truthy exact_batch then Inr [group_df] else split_chunks max_rows group_df) of
              Inl e \<Rightarrow> Inl e
            | Inr chunks \<Rightarrow>
                (let start_batch_num =
                       (if \<not> truthy exact_batch
                        then get_next_batch_num (out st) output_dir audio_source_seg speaker_seg
                        else 0)
                 in Inr (foldl (pack_chunk src wavs_dir output_dir dry_run cols audio_source_seg
                                  speaker_seg exact_batch start_batch_num)
                           st (zip [0 ..< length chunks] chunks)))))"

fun pack_groups ::
  "fs \<Rightarrow> path \<Rightarrow> path \<Rightarrow> bool \<Rightarrow> string list \<Rightarrow> string option \<Rightarrow> int \<Rightarrow>
   pstate \<Rightarrow> ((string \<times> string) \<times> row list) list \<Rightarrow> pstate \<times> fatal option" where
  "pack_groups src wavs_dir output_dir dry_run cols exact_batch max_rows st [] = (st, None)"
| "pack_groups src wavs_dir output_dir dry_run cols exact_batch max_rows st (g # gs) =
     (case pack_group src wavs_dir output_dir dry_run cols exact_batch max_rows st g of
        Inl e \<Rightarrow> (st, Some e)
      | Inr st' \<Rightarrow> pack_groups src wavs_dir output_dir dry_run cols exact_batch max_rows st' gs)"

definition pstate0 :: "fs \<Rightarrow> pstate" where
  "pstate0 f = \<lparr>out = f, stdout = [], copies = [], writes = [], moved = 0, skipped = 0\<rparr>"

text \<open>
  \<open>pack src out0 source_dir output_dir exact_batch max_rows dry_run\<close>: the state the run
  ends in, and how it ended (\<open>None\<close>: it returned).
\<close>

definition pack ::
  "fs \<Rightarrow> fs \<Rightarrow> path \<Rightarrow> path \<Rightarrow> string option \<Rightarrow> int \<Rightarrow> bool \<Rightarrow> pstate \<times> fatal option" where
  "pack src out0 source_dir output_dir exact_batch max_rows dry_run =
     (case load_metadata src source_dir of
        Inl e \<Rightarrow> (pstate0 out0, Some e)
      | Inr df \<Rightarrow>
          (let wavs_dir = joinpath source_dir ''wavs'' in
           if \<not> is_dir src wavs_dir then (pstate0 out0, Some WavsDirNotFound)
           else
             (let meta_dir = joinpath output_dir ''metadata'';
                  st1 = (if \<not> dry_run then (pstate0 out0)\<lparr>out := mkdir_p out0 meta_dir\<rparr>
                         else pstate0 out0)
              in case pack_groups src wavs_dir output_dir dry_run (columns df) exact_batch max_rows
                        st1 (groupby (rows df)) of
                   (st2, Some e) \<Rightarrow> (st2, Some e)
                 | (st2, None) \<Rightarrow>
                     (st2\<lparr>stdout := stdout st2 @
                            [if \<not> dry_run then Done (moved st2) (skipped st2) else DoneDryRun]\<rparr>,
                      None))))"

section \<open>unpack.py\<close>

text \<open>
  \<open>load_all_metadata\<close>: the entries of \<open>metadata/\<close> whose name ends in \<open>.parquet\<close>, in
  the order the directory lists them, read and concatenated.
\<close>

definition endswith :: "string \<Rightarrow> string \<Rightarrow> bool" where
  "endswith s suf = startswith (rev s) (rev suf)"

definition glob_parquet :: "fs \<Rightarrow> path \<Rightarrow> path list" where
  "glob_parquet f meta_dir = filter (\<lambda>p. endswith (name p) ''.parquet'') (iterdir f meta_dir)"

fun read_all :: "fs \<Rightarrow> path list \<Rightarrow> fatal + table list" where
  "read_all f [] = Inr []"
| "read_all f (p # ps) =
     (case read_table f p of
        Inl e \<Rightarrow> Inl e
      | Inr t \<Rightarrow> (case read_all f ps of Inl e \<Rightarrow> Inl e | Inr ts \<Rightarrow> Inr (t # ts)))"

definition concat_tables :: "table list \<Rightarrow> table" where
  "concat_tables ts = \<lparr>columns = remdups (concat (map columns ts)), rows = concat (map rows ts)\<rparr>"

definition load_all_metadata :: "fs \<Rightarrow> path \<Rightarrow> fatal + table" where
  "load_all_metadata f meta_dir =
     (let parquet_files = glob_parquet f meta_dir in
      if parquet_files = [] then Inl NoParquetFiles
      else case read_all f parquet_files of
             Inl e \<Rightarrow> Inl e
           | Inr frames \<Rightarrow> Inr (concat_tables frames))"

text \<open>The body of the loop over the rows.\<close>

definition unpack_row ::
  "fs \<Rightarrow> path \<Rightarrow> path \<Rightarrow> bool \<Rightarrow> ustate \<times> string list \<Rightarrow> row \<Rightarrow> ustate \<times> string list" where
  "unpack_row ds dataset_dir out_wavs dry_run acc r =
     (case acc of (st, flat_audio_paths) \<Rightarrow>
        (let src_file = joinpath dataset_dir (audio_path r);
             wav_filename = name src_file;
             dest_file = joinpath out_wavs wav_filename;
             flat = flat_audio_paths @ [''wavs/'' @ wav_filename]
         in if \<not> exists ds src_file
            then (st\<lparr>stdout := stdout st @ [Warn src_file], missing := missing st + 1\<rparr>, flat)
            else if dry_run
            then (st\<lparr>stdout := stdout st @ [DryCopy src_file dest_file]\<rparr>, flat)
            else (st\<lparr>out := copy2 ds (mkdir_p (out st) out_wavs) src_file dest_file,
                     copies := copies st @ [(src_file, dest_file)],
                     copied := copied st + 1\<rparr>, flat)))"

definition ustate0 :: "fs \<Rightarrow> ustate" where
  "ustate0 f = \<lparr>out = f, stdout = [], copies = [], writes = [], copied = 0, missing = 0\<rparr>"

definition unpack ::
  "fs \<Rightarrow> fs \<Rightarrow> path \<Rightarrow> path \<Rightarrow> string option \<Rightarrow> string option \<Rightarrow> string option \<Rightarrow> bool \<Rightarrow>
   ustate \<times> fatal option" where
  "unpack ds out0 dataset_dir output_dir speaker_arg audio_source_arg batch_arg dry_run =
     (let meta_dir = joinpath dataset_dir ''metadata'' in
      if \<not> is_dir ds meta_dir then (ustate0 out0, Some MetadataDirNotFound)
      else case load_all_metadata ds meta_dir of
             Inl e \<Rightarrow> (ustate0 out0, Some e)
           | Inr df0 \<Rightarrow>
               (case apply_filters df0 speaker_arg audio_source_arg batch_arg of
                  Inl e \<Rightarrow> (ustate0 out0, Some e)
                | Inr df \<Rightarrow>
                    (let out_wavs = joinpath output_dir ''wavs'';
                         (st1, flat_audio_paths) =
                            foldl (unpack_row ds dataset_dir out_wavs dry_run) (ustate0 out0, []) (rows df);
                         df' = df\<lparr>rows := set_audio_paths (rows df) flat_audio_paths\<rparr>;
                         csv_path = joinpath output_dir ''metadata.csv''
                     in if dry_run
                        then (st1\<lparr>stdout := stdout st1 @
                                   [DryMetadata csv_path (length (rows df')), DoneDryRun]\<rparr>, None)
                        else (st1\<lparr>out := write_table (mkdir_p (out st1) output_dir) csv_path df',
                                  writes := writes st1 @ [(csv_path, df')],
                                  stdout := stdout st1 @
                                    [SavedMetadata csv_path (length (rows df')),
                                     Done (copied st1) (missing st1)] @
                                    (if missing st1 \<noteq> 0 then [Hint] else [])\<rparr>, None))))"

section \<open>Specification-side notions\<close>

text \<open>The segments of a split path that have a separator on both sides.\<close>

definition interior :: "'a list \<Rightarrow> 'a list" where
  "interior xs = butlast (tl xs)"

section \<open>Example data\<close>

definition partitioned_rows :: "row list" where
  "partitioned_rows =
     [\<lparr>audio_path = ''audio/yt/bob/batch_0002/a.wav'', speaker = Some ''Bob'',
        audio_source = Some ''YT'', others = []\<rparr>,
      \<lparr>audio_path = ''audio/yt/bob/batch_0020/b.wav'', speaker = Some ''bob'',
        audio_source = Some ''yt'', others = []\<rparr>,
      \<lparr>audio_path = ''audio/studio/amy/batch_0002/c.wav'', speaker = Some ''Amy'',
        audio_source = Some ''studio'', others = []\<rparr>]"

definition partitioned_table :: table where
  "partitioned_table = \<lparr>columns = required, rows = partitioned_rows\<rparr>"

section \<open>Decisions of pack, named\<close>

definition src_file_of :: "path \<Rightarrow> row \<Rightarrow> path" where
  "src_file_of wavs_dir r = joinpath wavs_dir (name (path_parts (audio_path r)))"

definition wav_missing :: "fs \<Rightarrow> path \<Rightarrow> row \<Rightarrow> bool" where
  "wav_missing src wavs_dir r = (\<not> exists src (src_file_of wavs_dir r))"

definition dest_dir_of :: "path \<Rightarrow> string \<Rightarrow> string \<Rightarrow> string \<Rightarrow> path" where
  "dest_dir_of output_dir a s b = joinpath (joinpath (joinpath (joinpath output_dir ''audio'') a) s) b"

definition dest_file_of :: "path \<Rightarrow> string \<Rightarrow> string \<Rightarrow> string \<Rightarrow> row \<Rightarrow> path" where
  "dest_file_of output_dir a s b r = joinpath (dest_dir_of output_dir a s b) (name (path_parts (audio_path r)))"

definition partitioned_path :: "string \<Rightarrow> string \<Rightarrow> string \<Rightarrow> row \<Rightarrow> string" where
  "partitioned_path a s b r = ''audio/'' @ a @ ''/'' @ s @ ''/'' @ b @ ''/'' @ name (path_parts (audio_path r))"

definition mapped_path :: "fs \<Rightarrow> path \<Rightarrow> string \<Rightarrow> string \<Rightarrow> string \<Rightarrow> row \<Rightarrow> string" where
  "mapped_path src wavs_dir a s b r =
     (if wav_missing src wavs_dir r then audio_path r else partitioned_path a s b r)"

definition row_line :: "fs \<Rightarrow> path \<Rightarrow> path \<Rightarrow> string \<Rightarrow> string \<Rightarrow> string \<Rightarrow> row \<Rightarrow> line" where
  "row_line src wavs_dir output_dir a s b r =
     (if wav_missing src wavs_dir r then Warn (src_file_of wavs_dir r)
      else DryCopy (src_file_of wavs_dir r) (dest_file_of output_dir a s b r))"

definition shard_path :: "path \<Rightarrow> string \<Rightarrow> string \<Rightarrow> string \<Rightarrow> path" where
  "shard_path output_dir a s b =
     joinpath (joinpath output_dir ''metadata'') (a @ ''_'' @ s @ ''_'' @ b @ ''.parquet'')"

definition copy_row :: "fs \<Rightarrow> path \<Rightarrow> path \<Rightarrow> string \<Rightarrow> string \<Rightarrow> string \<Rightarrow> fs \<Rightarrow> row \<Rightarrow> fs" where
  "copy_row src wavs_dir output_dir a s b f r =
     copy2 src (mkdir_p f (dest_dir_of output_dir a s b)) (src_file_of wavs_dir r)
       (dest_file_of output_dir a s b r)"

abbreviation "rows_loop src w od dry a s b acc c \<equiv> foldl (pack_row src w od dry a s b) acc c"

definition chunk_table :: "string list \<Rightarrow> fs \<Rightarrow> path \<Rightarrow> string \<Rightarrow> string \<Rightarrow> string \<Rightarrow> row list \<Rightarrow> table" where
  "chunk_table cols src wavs_dir a s b c =
     \<lparr>columns = cols, rows = map (\<lambda>r. r\<lparr>audio_path := mapped_path src wavs_dir a s b r\<rparr>) c\<rparr>"

definition group_chunks :: "string option \<Rightarrow> int \<Rightarrow> row list \<Rightarrow> fatal + row list list" where
  "group_chunks exact_batch max_rows g = (if truthy exact_batch then Inr [g] else split_chunks max_rows g)"

definition written :: "'a run_scheme \<Rightarrow> row list" where
  "written st = concat (map (\<lambda>pt. rows (snd pt)) (writes st))"


definition warnings :: "line list \<Rightarrow> path list" where
  "warnings ls = concat (map (\<lambda>l. case l of Warn p \<Rightarrow> [p] | _ \<Rightarrow> []) ls)"


abbreviation "chunks_loop src w od dry cols a s e start st ics \<equiv>
  foldl (pack_chunk src w od dry cols a s e start) st ics"

abbreviation "groups_loop src w od dry cols e m st gs \<equiv> pack_groups src w od dry cols e m st gs"

section \<open>Example runs\<close>

text \<open>The copy pairs a dry run prints.\<close>

definition dry_pairs :: "line list \<Rightarrow> (path \<times> path) list" where
  "dry_pairs ls = concat (map (\<lambda>l. case l of DryCopy s d \<Rightarrow> [(s, d)] | _ \<Rightarrow> []) ls)"

definition flat_dir :: path where
  "flat_dir = [''/'', ''flat'']"

definition ds_dir :: path where
  "ds_dir = [''/'', ''ds'']"

text \<open>A flat dataset: the rows of its \<open>metadata.csv\<close> and the files of its \<open>wavs/\<close>.\<close>

definition flat_tree :: "row list \<Rightarrow> string list \<Rightarrow> fs" where
  "flat_tree rs wavs =
     [(flat_dir, Dir),
      (flat_dir @ [''metadata.csv''], Tab \<lparr>columns = required, rows = rs\<rparr>),
      (flat_dir @ [''wavs''], Dir)] @
     map (\<lambda>w. (flat_dir @ [''wavs'', w], Blob 0)) wavs"

definition row_of :: "string \<Rightarrow> string \<Rightarrow> string \<Rightarrow> row" where
  "row_of p s a = \<lparr>audio_path = p, speaker = Some s, audio_source = Some a, others = []\<rparr>"

text \<open>Two speakers that differ in case only, both wav files present.\<close>

definition colliding_source :: fs where
  "colliding_source =
     flat_tree [row_of ''wavs/a.wav'' ''Bob'' ''YT'', row_of ''wavs/b.wav'' ''bob'' ''yt'']
       [''a.wav'', ''b.wav'']"

text \<open>A first delivery whose wav file is missing, and a second delivery for the same speaker.\<close>

definition first_source :: fs where
  "first_source = flat_tree [row_of ''wavs/a.wav'' ''Bob'' ''YT''] []"

definition second_source :: fs where
  "second_source = flat_tree [row_of ''wavs/c.wav'' ''Bob'' ''YT''] [''c.wav'']"

definition after_first :: fs where
  "after_first = out (fst (pack first_source [] flat_dir ds_dir None 10 False))"

definition after_second :: fs where
  "after_second = out (fst (pack second_source after_first flat_dir ds_dir None 10 False))"

text \<open>A dataset packed under the explicit label \<open>batch_2026_01\<close>.\<close>

definition explicit_source :: fs where
  "explicit_source = flat_tree [row_of ''wavs/a.wav'' ''somrat'' ''youtube''] [''a.wav'']"

definition after_explicit :: fs where
  "after_explicit = out (fst (pack explicit_source [] flat_dir ds_dir (Some ''batch_2026_01'') 10 False))"

section \<open>Decisions of unpack, named\<close>

definition dataset_file_of :: "path \<Rightarrow> row \<Rightarrow> path" where
  "dataset_file_of dataset_dir r = joinpath dataset_dir (audio_path r)"

definition absent :: "fs \<Rightarrow> path \<Rightarrow> row \<Rightarrow> bool" where
  "absent ds dataset_dir r = (\<not> exists ds (dataset_file_of dataset_dir r))"

definition flat_path :: "path \<Rightarrow> row \<Rightarrow> string" where
  "flat_path dataset_dir r = ''wavs/'' @ name (dataset_file_of dataset_dir r)"

definition flat_file_of :: "path \<Rightarrow> path \<Rightarrow> row \<Rightarrow> path" where
  "flat_file_of output_dir dataset_dir r =
     joinpath (joinpath output_dir ''wavs'') (name (dataset_file_of dataset_dir r))"

definition flat_table :: "path \<Rightarrow> table \<Rightarrow> table" where
  "flat_table dataset_dir df = df\<lparr>rows := map (\<lambda>r. r\<lparr>audio_path := flat_path dataset_dir r\<rparr>) (rows df)\<rparr>"

definition flat_line :: "fs \<Rightarrow> path \<Rightarrow> path \<Rightarrow> row \<Rightarrow> line" where
  "flat_line ds dataset_dir output_dir r =
     (if absent ds dataset_dir r then Warn (dataset_file_of dataset_dir r)
      else DryCopy (dataset_file_of dataset_dir r) (flat_file_of output_dir dataset_dir r))"

definition flat_copy :: "fs \<Rightarrow> path \<Rightarrow> path \<Rightarrow> fs \<Rightarrow> row \<Rightarrow> fs" where
  "flat_copy ds dataset_dir output_dir f r =
     copy2 ds (mkdir_p f (joinpath output_dir ''wavs'')) (dataset_file_of dataset_dir r)
       (flat_file_of output_dir dataset_dir r)"

abbreviation "flat_loop ds dd od dry acc rs \<equiv> foldl (unpack_row ds dd (joinpath od ''wavs'') dry) acc rs"

text \<open>The state a run of unpack ends in, once the metadata is loaded and the filter keeps some row.\<close>

definition unpacked :: "fs \<Rightarrow> fs \<Rightarrow> path \<Rightarrow> path \<Rightarrow> bool \<Rightarrow> table \<Rightarrow> ustate" where
  "unpacked ds out0 dd od dry df =
     (let present = filter (\<lambda>r. \<not> absent ds dd r) (rows df);
          n_missing = length (filter (absent ds dd) (rows df));
          csv_path = joinpath od ''metadata.csv''
      in if dry
         then \<lparr>out = out0,
               stdout = map (flat_line ds dd od) (rows df) @
                        [DryMetadata csv_path (length (rows df)), DoneDryRun],
               copies = [], writes = [], copied = 0, missing = n_missing\<rparr>
         else \<lparr>out = write_table (mkdir_p (foldl (flat_copy ds dd od) out0 present) od) csv_path
                       (flat_table dd df),
               stdout = map (flat_line ds dd od) (filter (absent ds dd) (rows df)) @
                        [SavedMetadata csv_path (length (rows df)), Done (length present) n_missing] @
                        (if n_missing \<noteq> 0 then [Hint] else []),
               copies = map (\<lambda>r. (dataset_file_of dd r, flat_file_of od dd r)) present,
               writes = [(csv_path, flat_table dd df)],
               copied = length present, missing = n_missing\<rparr>)"

text \<open>The fatal errors the specification lists for each script.\<close>

definition pack_preflight :: "fatal \<Rightarrow> bool" where
  "pack_preflight x =
     (case x of MetadataCsvNotFound \<Rightarrow> True | MissingColumns c \<Rightarrow> True | WavsDirNotFound \<Rightarrow> True
      | _ \<Rightarrow> False)"

definition unpack_preflight :: "fatal \<Rightarrow> bool" where
  "unpack_preflight x =
     (case x of MetadataDirNotFound \<Rightarrow> True | NoParquetFiles \<Rightarrow> True | NoRowsMatch \<Rightarrow> True
      | _ \<Rightarrow> False)"

text \<open>Datasets that fail a pre-flight check.\<close>

definition two_column_source :: fs where
  "two_column_source =
     [(flat_dir, Dir),
      (flat_dir @ [''metadata.csv''], Tab \<lparr>columns = [''audio_path'', ''audio_source''], rows = []\<rparr>),
      (flat_dir @ [''wavs''], Dir)]"

definition no_wavs_source :: fs where
  "no_wavs_source =
     [(flat_dir, Dir),
      (flat_dir @ [''metadata.csv''], Tab \<lparr>columns = required, rows = []\<rparr>)]"

definition no_shard_dataset :: fs where
  "no_shard_dataset = [(ds_dir, Dir), (ds_dir @ [''metadata''], Dir)]"







section \<open>Strings and paths: basic facts\<close>

lemma startswith_iff: "startswith s p \<longleftrightarrow> (\<exists>v. s = p @ v)"
  by (induction s p rule: startswith.induct) auto

lemma contains_iff: "contains s sub \<longleftrightarrow> (\<exists>u v. s = u @ sub @ v)"
proof (induction s)
  case Nil
  then show ?case by auto
next
  case (Cons c cs)
  show ?case
  proof
    assume "contains (c # cs) sub"
    then consider "startswith (c # cs) sub" | "contains cs sub" by auto
    then show "\<exists>u v. c # cs = u @ sub @ v"
    proof cases
      case 1
      then obtain v where "c # cs = sub @ v" by (auto simp: startswith_iff)
      then have "c # cs = [] @ sub @ v" by simp
      then show ?thesis by blast
    next
      case 2
      then obtain u v where "cs = u @ sub @ v" using Cons.IH by auto
      then have "c # cs = (c # u) @ sub @ v" by simp
      then show ?thesis by blast
    qed
  next
    assume "\<exists>u v. c # cs = u @ sub @ v"
    then obtain u v where uv: "c # cs = u @ sub @ v" by auto
    show "contains (c # cs) sub"
    proof (cases u)
      case Nil
      have "startswith (c # cs) sub" unfolding startswith_iff using uv Nil by auto
      then show ?thesis by simp
    next
      case (Cons a u')
      then have "cs = u' @ sub @ v" using uv by simp
      then show ?thesis using Cons.IH by auto
    qed
  qed
qed

lemma split_on_nonempty: "split_on c s \<noteq> []"
  by (induction s) (auto split: list.splits)

lemma split_on_append: "split_on c (u @ c # w) = split_on c u @ split_on c w"
proof (induction u)
  case Nil
  then show ?case by simp
next
  case (Cons a u)
  then show ?case using split_on_nonempty[of c u] by (cases "split_on c u") auto
qed

lemma split_on_no_sep: "c \<notin> set b \<Longrightarrow> split_on c b = [b]"
  by (induction b) auto


lemma split_on_decompose:
  "split_on c s = xs @ b # ys \<Longrightarrow> xs \<noteq> [] \<Longrightarrow> ys \<noteq> [] \<Longrightarrow> \<exists>u v. s = u @ [c] @ b @ [c] @ v"
proof (induction s arbitrary: xs)
  case Nil
  then show ?case by (cases xs) auto
next
  case (Cons a s)
  obtain x xs' where xs: "xs = x # xs'" using Cons.prems(2) by (cases xs) auto
  show ?case
  proof (cases "a = c")
    case True
    then have sp: "split_on c s = xs' @ b # ys" using Cons.prems(1) xs by simp
    show ?thesis
    proof (cases xs')
      case Nil
      then have "split_on c s = b # ys" using sp by simp
      obtain y ys' where ys: "ys = y # ys'" using Cons.prems(3) by (cases ys) auto
      have "\<exists>v. s = b @ [c] @ v" using \<open>split_on c s = b # ys\<close> ys
      proof (induction s arbitrary: b)
        case Nil
        then show ?case by simp
      next
        case (Cons d s)
        show ?case
        proof (cases "d = c")
          case True
          then show ?thesis using Cons.prems by auto
        next
          case False
          then obtain b' where b': "b = d # b'" "split_on c s = b' # ys"
            using Cons.prems split_on_nonempty[of c s] by (cases "split_on c s") auto
          then obtain v where "s = b' @ [c] @ v" using Cons.IH Cons.prems(2) by blast
          then show ?thesis using b' by auto
        qed
      qed
      then obtain v where "s = b @ [c] @ v" by blast
      then have "a # s = [] @ [c] @ b @ [c] @ v" using True by simp
      then show ?thesis by blast
    next
      case (Cons z zs)
      then obtain u v where "s = u @ [c] @ b @ [c] @ v" using Cons.IH[OF sp _ Cons.prems(3)] by auto
      then have "a # s = (a # u) @ [c] @ b @ [c] @ v" by simp
      then show ?thesis by blast
    qed
  next
    case False
    obtain y0 ys0 where y0: "split_on c s = y0 # ys0" using split_on_nonempty[of c s] by (cases "split_on c s") auto
    then have "split_on c s = (y0 # xs') @ b # ys" using Cons.prems(1) xs False by auto
    then obtain u v where "s = u @ [c] @ b @ [c] @ v" using Cons.IH[of "y0 # xs'"] Cons.prems(3) by auto
    then have "a # s = (a # u) @ [c] @ b @ [c] @ v" by simp
    then show ?thesis by blast
  qed
qed

lemma has_segment_interior:
  assumes "CHR ''/'' \<notin> set b"
  shows "has_segment p b \<longleftrightarrow> b \<in> set (interior (split_on CHR ''/'' p))"
proof
  assume "has_segment p b"
  then obtain u v where "p = u @ (''/'' @ b @ ''/'') @ v"
    unfolding has_segment_def contains_iff by blast
  then have p: "p = u @ CHR ''/'' # (b @ CHR ''/'' # v)" by simp
  have "split_on CHR ''/'' p = split_on CHR ''/'' u @ [b] @ split_on CHR ''/'' v"
    unfolding p by (simp add: split_on_append split_on_no_sep[OF assms])
  moreover obtain x xs where "split_on CHR ''/'' u = x # xs"
    using split_on_nonempty[of "CHR ''/''" u] by (cases "split_on CHR ''/'' u") auto
  moreover obtain ys y where "split_on CHR ''/'' v = ys @ [y]"
    using split_on_nonempty[of "CHR ''/''" v] by (cases "split_on CHR ''/'' v" rule: rev_cases) auto
  ultimately show "b \<in> set (interior (split_on CHR ''/'' p))"
    by (simp add: interior_def butlast_append)
next
  assume "b \<in> set (interior (split_on CHR ''/'' p))"
  then obtain xs ys where i: "interior (split_on CHR ''/'' p) = xs @ b # ys"
    by (auto simp: in_set_conv_decomp)
  obtain h t where ht: "split_on CHR ''/'' p = h # t"
    using split_on_nonempty[of "CHR ''/''" p] by (cases "split_on CHR ''/'' p") auto
  have t: "butlast t = xs @ b # ys" using i ht by (simp add: interior_def)
  then have "t \<noteq> []" by auto
  then have "t = butlast t @ [last t]" by simp
  then have "split_on CHR ''/'' p = (h # xs) @ b # (ys @ [last t])" using ht t by simp
  from split_on_decompose[OF this] obtain u v where "p = u @ ''/'' @ b @ ''/'' @ v" by auto
  then show "has_segment p b" unfolding has_segment_def contains_iff by auto
qed

section \<open>The filter engine\<close>

lemma step_update:
  "(case arg of None \<Rightarrow> d | Some s \<Rightarrow> if s = [] then d else d\<lparr>rows := filter (P s) (rows d)\<rparr>)
     = d\<lparr>rows := filter (\<lambda>r. given arg \<longrightarrow> P (the arg) r) (rows d)\<rparr>"
  by (cases arg) (auto simp: given_def)

lemma ci_equal_eq: "(map_option lower cell = Some (lower s)) = ci_equal cell s"
  by (cases cell) (auto simp: ci_equal_def)

lemma apply_filters_rows:
  "apply_filters df sp src b =
     (if filter (row_kept sp src b) (rows df) = [] then Inl NoRowsMatch
      else Inr (df\<lparr>rows := filter (row_kept sp src b) (rows df)\<rparr>))"
proof -
  have k: "(\<lambda>r. (given sp \<longrightarrow> ci_equal (speaker r) (the sp)) \<and>
                 (given src \<longrightarrow> ci_equal (audio_source r) (the src)) \<and>
                 (given b \<longrightarrow> contains (audio_path r) (''/'' @ the b @ ''/''))) = row_kept sp src b"
    by (auto simp: row_kept_def has_segment_def fun_eq_iff)
  show ?thesis
    unfolding apply_filters_def Let_def step_update ci_equal_eq
    by (simp add: k del: append.simps)
qed

lemma filtered_rows_eq:
  "filtered_rows df sp src b = filter (row_kept sp src b) (rows df)"
  by (simp add: filtered_rows_def apply_filters_rows)

lemma row_kept_weaken:
  "row_kept sp src b r \<Longrightarrow> row_kept sp None None r \<and> row_kept None src None r \<and> row_kept None None b r"
  by (simp add: row_kept_def given_def)

text \<open>
  C5. The filters of \<open>apply_filters\<close> are conjoined: the rows kept are exactly those that
  every given filter accepts (speaker and audio source compared after lower-casing, the
  batch looked for as \<open>/batch/\<close> inside the audio path), and the run fails with
  \<open>NoRowsMatch\<close> exactly when none is kept. Filtering with several filters keeps a subset
  of what each filter alone keeps. A batch label without a slash is found exactly when
  it is a segment of the path with a slash on both sides, so \<open>batch_0002\<close> does not
  select a path through \<open>batch_0020\<close>.
\<close>

theorem apply_filters_conjunction:
  "apply_filters df sp src b =
     (if filter (row_kept sp src b) (rows df) = [] then Inl NoRowsMatch
      else Inr (df\<lparr>rows := filter (row_kept sp src b) (rows df)\<rparr>))
   \<and> set (filtered_rows df sp src b) \<subseteq> set (filtered_rows df sp None None)
   \<and> set (filtered_rows df sp src b) \<subseteq> set (filtered_rows df None src None)
   \<and> set (filtered_rows df sp src b) \<subseteq> set (filtered_rows df None None b)
   \<and> (CHR ''/'' \<notin> set lbl \<longrightarrow>
        (r \<in> set (filtered_rows df None None (Some lbl)) \<longleftrightarrow>
           r \<in> set (rows df) \<and> (lbl = [] \<or> lbl \<in> set (interior (split_on CHR ''/'' (audio_path r))))))"
proof -
  have sub: "set (filtered_rows df sp src b) \<subseteq> set (filtered_rows df sp None None)"
       "set (filtered_rows df sp src b) \<subseteq> set (filtered_rows df None src None)"
       "set (filtered_rows df sp src b) \<subseteq> set (filtered_rows df None None b)"
    using row_kept_weaken[of sp src b] by (auto simp: filtered_rows_eq)
  have seg: "r \<in> set (filtered_rows df None None (Some lbl)) \<longleftrightarrow>
       r \<in> set (rows df) \<and> (lbl = [] \<or> lbl \<in> set (interior (split_on CHR ''/'' (audio_path r))))"
    if "CHR ''/'' \<notin> set lbl"
    using has_segment_interior[OF that, of "audio_path r"]
    by (auto simp: filtered_rows_eq row_kept_def given_def)
  show ?thesis using apply_filters_rows sub seg by blast
qed

theorem apply_filters_conjunction_witness:
  "apply_filters partitioned_table (Some ''BOB'') (Some ''Yt'') (Some ''batch_0002'') =
     Inr (partitioned_table\<lparr>rows := [partitioned_rows ! 0]\<rparr>)
   \<and> CHR ''/'' \<notin> set ''batch_0002''
   \<and> partitioned_rows ! 0 \<in> set (filtered_rows partitioned_table None None (Some ''batch_0002''))
   \<and> partitioned_rows ! 1 \<notin> set (filtered_rows partitioned_table None None (Some ''batch_0002''))"
proof -
  have h: "CHR ''/'' \<notin> set ''batch_0002''" by simp
  have e1: "filter (row_kept (Some ''BOB'') (Some ''Yt'') (Some ''batch_0002'')) (rows partitioned_table)
              = [partitioned_rows ! 0]"
    by code_simp
  have e2: "partitioned_rows ! 0 \<in> set (rows partitioned_table) \<and>
            (''batch_0002'' = [] \<or>
             ''batch_0002'' \<in> set (interior (split_on CHR ''/'' (audio_path (partitioned_rows ! 0)))))"
    by code_simp
  have e3: "\<not> (partitioned_rows ! 1 \<in> set (rows partitioned_table) \<and>
            (''batch_0002'' = [] \<or>
             ''batch_0002'' \<in> set (interior (split_on CHR ''/'' (audio_path (partitioned_rows ! 1))))))"
    by code_simp
  have c1: "apply_filters partitioned_table (Some ''BOB'') (Some ''Yt'') (Some ''batch_0002'') =
     Inr (partitioned_table\<lparr>rows := [partitioned_rows ! 0]\<rparr>)"
    using apply_filters_conjunction[of partitioned_table "Some ''BOB''" "Some ''Yt''"
      "Some ''batch_0002''" "''batch_0002''" "partitioned_rows ! 1"]
    unfolding e1 by simp
  have c2: "partitioned_rows ! 0 \<in> set (filtered_rows partitioned_table None None (Some ''batch_0002''))"
    using apply_filters_conjunction[of partitioned_table None None
      "Some ''batch_0002''" "''batch_0002''" "partitioned_rows ! 0"] h e2 by blast
  have c3: "partitioned_rows ! 1 \<notin> set (filtered_rows partitioned_table None None (Some ''batch_0002''))"
    using apply_filters_conjunction[of partitioned_table None None
      "Some ''batch_0002''" "''batch_0002''" "partitioned_rows ! 1"] h e3 by blast
  show ?thesis using c1 c2 c3 h by blast
qed

section \<open>pack: the loop over the rows of a chunk\<close>

lemma pack_row_step:
  "pack_row src w od dry a s b (st, nps, cm) r =
     (if wav_missing src w r
      then (st\<lparr>stdout := stdout st @ [Warn (src_file_of w r)], skipped := skipped st + 1\<rparr>,
            nps @ [mapped_path src w a s b r], cm)
      else if dry
      then (st\<lparr>stdout := stdout st @ [DryCopy (src_file_of w r) (dest_file_of od a s b r)]\<rparr>,
            nps @ [mapped_path src w a s b r], cm)
      else (st\<lparr>out := copy_row src w od a s b (out st) r,
               copies := copies st @ [(src_file_of w r, dest_file_of od a s b r)]\<rparr>,
            nps @ [mapped_path src w a s b r], cm + 1))"
  by (simp add: pack_row_def Let_def wav_missing_def src_file_of_def dest_file_of_def
      dest_dir_of_def mapped_path_def partitioned_path_def copy_row_def)

lemma rows_loop_paths:
  "fst (snd (rows_loop src w od dry a s b (st, nps, cm) c)) = nps @ map (mapped_path src w a s b) c"
  by (cases dry; induction c arbitrary: st nps cm) (simp_all add: pack_row_step)

lemma rows_loop_moved_count:
  "snd (snd (rows_loop src w od dry a s b (st, nps, cm) c)) =
     cm + (if dry then 0 else length (filter (\<lambda>r. \<not> wav_missing src w r) c))"
  by (cases dry; induction c arbitrary: st nps cm) (simp_all add: pack_row_step)

lemma rows_loop_skipped:
  "skipped (fst (rows_loop src w od dry a s b (st, nps, cm) c)) =
     skipped st + length (filter (wav_missing src w) c)"
  by (cases dry; induction c arbitrary: st nps cm) (simp_all add: pack_row_step)

lemma rows_loop_moved:
  "moved (fst (rows_loop src w od dry a s b (st, nps, cm) c)) = moved st"
  by (cases dry; induction c arbitrary: st nps cm) (simp_all add: pack_row_step)

lemma rows_loop_writes:
  "writes (fst (rows_loop src w od dry a s b (st, nps, cm) c)) = writes st"
  by (cases dry; induction c arbitrary: st nps cm) (simp_all add: pack_row_step)

lemma rows_loop_stdout:
  "stdout (fst (rows_loop src w od dry a s b (st, nps, cm) c)) =
     stdout st @ map (row_line src w od a s b) (filter (\<lambda>r. dry \<or> wav_missing src w r) c)"
  by (cases dry; induction c arbitrary: st nps cm) (simp_all add: pack_row_step row_line_def)

lemma rows_loop_copies:
  "copies (fst (rows_loop src w od dry a s b (st, nps, cm) c)) =
     copies st @ (if dry then []
                  else map (\<lambda>r. (src_file_of w r, dest_file_of od a s b r))
                         (filter (\<lambda>r. \<not> wav_missing src w r) c))"
  by (cases dry; induction c arbitrary: st nps cm) (simp_all add: pack_row_step)

lemma rows_loop_out:
  "out (fst (rows_loop src w od dry a s b (st, nps, cm) c)) =
     (if dry then out st
      else foldl (copy_row src w od a s b) (out st) (filter (\<lambda>r. \<not> wav_missing src w r) c))"
  by (cases dry; induction c arbitrary: st nps cm) (simp_all add: pack_row_step)

section \<open>pack: chunks\<close>

lemma set_audio_paths_map: "set_audio_paths c (map f c) = map (\<lambda>r. r\<lparr>audio_path := f r\<rparr>) c"
  by (simp add: set_audio_paths_def zip_map2 zip_same_conv_map)

lemma pack_chunk_eq:
  "pack_chunk src w od dry cols a s e start st (idx, c) =
     (let b = current_batch e start idx;
          st1 = fst (rows_loop src w od dry a s b (st, [], 0) c);
          st2 = st1\<lparr>moved := moved st1 + (if dry then 0 else length (filter (\<lambda>r. \<not> wav_missing src w r) c))\<rparr>
      in if dry then st2\<lparr>stdout := stdout st2 @ [DryMetadata (shard_path od a s b) (length c)]\<rparr>
         else st2\<lparr>out := write_table (out st2) (shard_path od a s b) (chunk_table cols src w a s b c),
                  writes := writes st2 @ [(shard_path od a s b, chunk_table cols src w a s b c)],
                  stdout := stdout st2 @ [SavedMetadata (shard_path od a s b) (length c)]\<rparr>)"
proof -
  obtain st1 nps cm where r: "rows_loop src w od dry a s (current_batch e start idx) (st, [], 0) c = (st1, nps, cm)"
    by (metis prod_cases3)
  have nps: "nps = map (mapped_path src w a s (current_batch e start idx)) c"
    using rows_loop_paths[of src w od dry a s "current_batch e start idx" st "[]" 0 c] r by simp
  have cm: "cm = (if dry then 0 else length (filter (\<lambda>r. \<not> wav_missing src w r) c))"
    using rows_loop_moved_count[of src w od dry a s "current_batch e start idx" st "[]" 0 c] r by simp
  show ?thesis
    using r by (cases dry) (simp_all add: pack_chunk_def Let_def nps cm set_audio_paths_map chunk_table_def shard_path_def)
qed

lemma pack_chunk_writes:
  "writes (pack_chunk src w od dry cols a s e start st (idx, c)) =
     writes st @ (if dry then []
                  else [(shard_path od a s (current_batch e start idx),
                         chunk_table cols src w a s (current_batch e start idx) c)])"
  by (simp add: pack_chunk_eq Let_def rows_loop_writes)

lemma pack_chunk_skipped:
  "skipped (pack_chunk src w od dry cols a s e start st (idx, c)) =
     skipped st + length (filter (wav_missing src w) c)"
  by (simp add: pack_chunk_eq Let_def rows_loop_skipped)

lemma pack_chunk_moved:
  "moved (pack_chunk src w od dry cols a s e start st (idx, c)) =
     moved st + (if dry then 0 else length (filter (\<lambda>r. \<not> wav_missing src w r) c))"
  by (simp add: pack_chunk_eq Let_def rows_loop_moved)

lemma pack_chunk_copies:
  "copies (pack_chunk src w od dry cols a s e start st (idx, c)) =
     copies st @ (if dry then []
                  else map (\<lambda>r. (src_file_of w r, dest_file_of od a s (current_batch e start idx) r))
                         (filter (\<lambda>r. \<not> wav_missing src w r) c))"
  by (simp add: pack_chunk_eq Let_def rows_loop_copies)

lemma pack_chunk_stdout:
  "stdout (pack_chunk src w od dry cols a s e start st (idx, c)) =
     stdout st @
     map (row_line src w od a s (current_batch e start idx)) (filter (\<lambda>r. dry \<or> wav_missing src w r) c) @
     [if dry then DryMetadata (shard_path od a s (current_batch e start idx)) (length c)
      else SavedMetadata (shard_path od a s (current_batch e start idx)) (length c)]"
  by (simp add: pack_chunk_eq Let_def rows_loop_stdout)

lemma pack_chunk_out:
  "out (pack_chunk src w od dry cols a s e start st (idx, c)) =
     (if dry then out st
      else write_table
             (foldl (copy_row src w od a s (current_batch e start idx)) (out st)
                (filter (\<lambda>r. \<not> wav_missing src w r) c))
             (shard_path od a s (current_batch e start idx))
             (chunk_table cols src w a s (current_batch e start idx) c))"
  by (simp add: pack_chunk_eq Let_def rows_loop_out)

lemma concat_slices:
  "concat (map (\<lambda>k. take n (drop (k * n) g)) [0 ..< j]) = take (j * n) g"
proof (induction j)
  case 0
  then show ?case by simp
next
  case (Suc j)
  have "take (j * n + n) g = take (j * n) g @ take n (drop (j * n) g)"
    by (simp add: take_add)
  then show ?case using Suc by (simp add: add.commute)
qed

lemma ceil_div_cover:
  assumes "0 < n" shows "(L::nat) \<le> ((L + n - 1) div n) * n"
proof -
  have "(L + n - 1) mod n < n" using assms by simp
  moreover have "((L + n - 1) div n) * n = (L + n - 1) - (L + n - 1) mod n"
    by (simp add: minus_mod_eq_div_mult)
  ultimately show ?thesis using assms by linarith
qed


lemma split_chunks_pos:
  assumes "0 < m"
  shows "split_chunks m g =
           Inr (map (\<lambda>k. take (nat m) (drop (k * nat m) g)) [0 ..< (length g + nat m - 1) div nat m])"
  using assms by (simp add: split_chunks_def py_range_def comp_def)

lemma split_chunks_concat:
  assumes "0 < m" "split_chunks m g = Inr cs"
  shows "concat cs = g"
proof -
  have cs: "cs = map (\<lambda>k. take (nat m) (drop (k * nat m) g)) [0 ..< (length g + nat m - 1) div nat m]"
    using assms by (simp add: split_chunks_pos)
  have "concat cs = take (((length g + nat m - 1) div nat m) * nat m) g"
    unfolding cs by (rule concat_slices)
  moreover have "length g \<le> ((length g + nat m - 1) div nat m) * nat m"
    using assms(1) by (intro ceil_div_cover) simp
  ultimately show ?thesis by simp
qed


lemma split_chunks_result:
  "split_chunks m g = (if m = 0 then Inl ValueError else if m < 0 then Inr [] else
     Inr (map (\<lambda>k. take (nat m) (drop (k * nat m) g)) [0 ..< (length g + nat m - 1) div nat m]))"
  by (simp add: split_chunks_def py_range_def comp_def)

section \<open>pack: the loop over the chunks of a group\<close>

lemma warnings_append [simp]: "warnings (xs @ ys) = warnings xs @ warnings ys"
  by (simp add: warnings_def)

lemma warnings_Nil [simp]: "warnings [] = []"
  by (simp add: warnings_def)

lemma warnings_row_lines:
  "warnings (map (row_line src w od a s b) (filter (\<lambda>r. dry \<or> wav_missing src w r) c)) =
     map (src_file_of w) (filter (wav_missing src w) c)"
  by (induction c) (auto simp: warnings_def row_line_def)

lemma warnings_meta [simp]:
  "warnings [DryMetadata p n] = []" "warnings [SavedMetadata p n] = []"
  "warnings [Done i j] = []" "warnings [DoneDryRun] = []" "warnings [Hint] = []"
  by (simp_all add: warnings_def)

lemma chunks_loop_writes:
  "writes (chunks_loop src w od dry cols a s e start st ics) =
     writes st @ (if dry then []
                  else map (\<lambda>ic. (shard_path od a s (current_batch e start (fst ic)),
                                 chunk_table cols src w a s (current_batch e start (fst ic)) (snd ic))) ics)"
  by (induction ics arbitrary: st) (auto simp: pack_chunk_writes)

lemma chunks_loop_skipped:
  "skipped (chunks_loop src w od dry cols a s e start st ics) =
     skipped st + length (filter (wav_missing src w) (concat (map snd ics)))"
  by (induction ics arbitrary: st) (auto simp: pack_chunk_skipped)

lemma chunks_loop_moved:
  "moved (chunks_loop src w od dry cols a s e start st ics) =
     moved st + (if dry then 0 else length (filter (\<lambda>r. \<not> wav_missing src w r) (concat (map snd ics))))"
  by (induction ics arbitrary: st) (auto simp: pack_chunk_moved)

lemma chunks_loop_copies:
  "copies (chunks_loop src w od dry cols a s e start st ics) =
     copies st @ (if dry then []
                  else concat (map (\<lambda>ic. map (\<lambda>r. (src_file_of w r,
                                                   dest_file_of od a s (current_batch e start (fst ic)) r))
                                          (filter (\<lambda>r. \<not> wav_missing src w r) (snd ic))) ics))"
  by (induction ics arbitrary: st) (auto simp: pack_chunk_copies)

lemma chunks_loop_warnings:
  "warnings (stdout (chunks_loop src w od dry cols a s e start st ics)) =
     warnings (stdout st) @ map (src_file_of w) (filter (wav_missing src w) (concat (map snd ics)))"
  by (induction ics arbitrary: st) (auto simp: pack_chunk_stdout warnings_row_lines)

lemma chunks_loop_out_dry:
  "out (chunks_loop src w od True cols a s e start st ics) = out st"
  by (induction ics arbitrary: st) (auto simp: pack_chunk_out)



lemma pack_group_eq:
  "pack_group src w od dry cols e m st ((ra, rs), g) =
     (case group_chunks e m g of
        Inl x \<Rightarrow> Inl x
      | Inr cs \<Rightarrow>
          Inr (chunks_loop src w od dry cols (sanitise ra) (sanitise rs) e
                 (if truthy e then 0 else get_next_batch_num (out st) od (sanitise ra) (sanitise rs))
                 st (zip [0 ..< length cs] cs)))"
  by (auto simp: pack_group_def group_chunks_def Let_def split: sum.splits)

lemma group_chunks_ok:
  assumes "0 < m \<or> truthy e"
  shows "\<exists>cs. group_chunks e m g = Inr cs \<and> concat cs = g"
proof (cases "truthy e")
  case True
  then show ?thesis by (simp add: group_chunks_def)
next
  case False
  then have m: "0 < m" using assms by simp
  obtain cs where cs: "split_chunks m g = Inr cs" using m by (simp add: split_chunks_pos)
  then show ?thesis using False split_chunks_concat[OF m cs] by (simp add: group_chunks_def)
qed

lemma group_chunks_error: "group_chunks e m g = Inl x \<Longrightarrow> x = ValueError \<and> m = 0 \<and> \<not> truthy e"
  by (auto simp: group_chunks_def split_chunks_result split: if_splits)

lemma snd_zip_upt: "map snd (zip [0 ..< length cs] cs) = cs"
  by simp

section \<open>pack: the loop over the groups\<close>

lemma pack_groups_error:
  "groups_loop src w od dry cols e m st gs = (st', Some x) \<Longrightarrow> x = ValueError \<and> m = 0 \<and> \<not> truthy e"
proof (induction gs arbitrary: st)
  case Nil
  then show ?case by simp
next
  case (Cons g gs)
  obtain ra rs rws where g: "g = ((ra, rs), rws)" by (metis prod.collapse)
  show ?case
  proof (cases "group_chunks e m rws")
    case (Inl y)
    then show ?thesis using Cons.prems group_chunks_error[OF Inl] by (simp add: g pack_group_eq)
  next
    case (Inr cs)
    then show ?thesis using Cons.prems Cons.IH by (simp add: g pack_group_eq)
  qed
qed


lemma pack_groups_step:
  assumes "group_chunks e m rws = Inr cs"
  shows "groups_loop src w od dry cols e m st (((ra, rs), rws) # gs) =
           groups_loop src w od dry cols e m
             (chunks_loop src w od dry cols (sanitise ra) (sanitise rs) e
                (if truthy e then 0 else get_next_batch_num (out st) od (sanitise ra) (sanitise rs))
                st (zip [0 ..< length cs] cs)) gs"
  using assms by (simp add: pack_group_eq)

lemma pack_groups_dry:
  "out (fst (groups_loop src w od True cols e m st gs)) = out st"
  "copies (fst (groups_loop src w od True cols e m st gs)) = copies st"
  "writes (fst (groups_loop src w od True cols e m st gs)) = writes st"
proof (induction gs arbitrary: st)
  case Nil
  {
    case 1 show ?case by simp
  next
    case 2 show ?case by simp
  next
    case 3 show ?case by simp
  }
next
  case (Cons g gs)
  obtain ra rs rws where g: "g = ((ra, rs), rws)" by (metis prod.collapse)
  {
    case 1 show ?case
      by (cases "group_chunks e m rws")
         (simp_all add: g pack_group_eq Cons.IH chunks_loop_out_dry)
  next
    case 2 show ?case
      by (cases "group_chunks e m rws")
         (simp_all add: g pack_group_eq Cons.IH chunks_loop_copies)
  next
    case 3 show ?case
      by (cases "group_chunks e m rws")
         (simp_all add: g pack_group_eq Cons.IH chunks_loop_writes)
  }
qed

lemma pack_groups_counts:
  assumes "0 < m \<or> truthy e"
  shows "skipped (fst (groups_loop src w od dry cols e m st gs)) =
           skipped st + length (filter (wav_missing src w) (concat (map snd gs)))"
    and "moved (fst (groups_loop src w od dry cols e m st gs)) =
           moved st + (if dry then 0 else length (filter (\<lambda>r. \<not> wav_missing src w r) (concat (map snd gs))))"
    and "warnings (stdout (fst (groups_loop src w od dry cols e m st gs))) =
           warnings (stdout st) @ map (src_file_of w) (filter (wav_missing src w) (concat (map snd gs)))"
proof (induction gs arbitrary: st)
  case Nil
  {
    case 1 show ?case by simp
  next
    case 2 show ?case by simp
  next
    case 3 show ?case by simp
  }
next
  case (Cons g gs)
  obtain ra rs rws where g: "g = ((ra, rs), rws)" by (metis prod.collapse)
  obtain cs where cs: "group_chunks e m rws = Inr cs" "concat cs = rws"
    using group_chunks_ok[OF assms] by blast
  {
    case 1 show ?case
      unfolding g pack_groups_step[OF cs(1)]
      by (simp add: Cons.IH(1) chunks_loop_skipped cs(2))
  next
    case 2 show ?case
      unfolding g pack_groups_step[OF cs(1)]
      by (simp add: Cons.IH(2) chunks_loop_moved cs(2))
  next
    case 3 show ?case
      unfolding g pack_groups_step[OF cs(1)]
      by (simp add: Cons.IH(3) chunks_loop_warnings cs(2))
  }
qed







lemma pack_eq:
  assumes "load_metadata src sd = Inr df" "is_dir src (joinpath sd ''wavs'')"
  shows "pack src out0 sd od e m dry =
     (let st1 = (if dry then pstate0 out0 else (pstate0 out0)\<lparr>out := mkdir_p out0 (joinpath od ''metadata'')\<rparr>);
          res = groups_loop src (joinpath sd ''wavs'') od dry (columns df) e m st1 (groupby (rows df))
      in case snd res of
           Some x \<Rightarrow> (fst res, Some x)
         | None \<Rightarrow> ((fst res)\<lparr>stdout := stdout (fst res) @
                        [if dry then DoneDryRun else Done (moved (fst res)) (skipped (fst res))]\<rparr>, None))"
  using assms by (auto simp: pack_def Let_def split: prod.splits option.splits)

section \<open>Runs that break a guarantee\<close>

text \<open>
  C2. Batch numbers are reused across runs when a batch left no directory behind. The
  first run packs one row whose wav file is missing: it writes the shard of
  \<open>batch_0001\<close> and copies nothing, so no directory \<open>batch_0001\<close> exists. The second run
  finds no batch directory, assigns \<open>batch_0001\<close> again and overwrites the shard: the
  row of the first run is gone from the tree.
\<close>

theorem batch_number_reused:
  "map fst (writes (fst (pack first_source [] flat_dir ds_dir None 10 False))) =
       [ds_dir @ [''metadata'', ''yt_bob_batch_0001.parquet'']]
   \<and> get_next_batch_num after_first ds_dir ''yt'' ''bob'' = 1
   \<and> map fst (writes (fst (pack second_source after_first flat_dir ds_dir None 10 False))) =
       [ds_dir @ [''metadata'', ''yt_bob_batch_0001.parquet'']]
   \<and> read_table after_first (ds_dir @ [''metadata'', ''yt_bob_batch_0001.parquet'']) =
       Inr \<lparr>columns = required, rows = [row_of ''wavs/a.wav'' ''Bob'' ''YT'']\<rparr>
   \<and> read_table after_second (ds_dir @ [''metadata'', ''yt_bob_batch_0001.parquet'']) =
       Inr \<lparr>columns = required, rows = [row_of ''audio/yt/bob/batch_0001/c.wav'' ''Bob'' ''YT'']\<rparr>
   \<and> glob_parquet after_second (ds_dir @ [''metadata'']) =
       [ds_dir @ [''metadata'', ''yt_bob_batch_0001.parquet'']]"
  by code_simp

text \<open>
  C3. A directory that is not of the form \<open>batch_####\<close> contributes a number: after a
  run under the explicit label \<open>batch_2026_01\<close> the speaker directory holds that one
  directory, and the next automatic batch number is 2, not 1: the last piece \<open>01\<close> of
  the label is read as the number 1.
\<close>

theorem explicit_label_counted:
  "iterdir after_explicit (ds_dir @ [''audio'', ''youtube'', ''somrat'']) =
       [ds_dir @ [''audio'', ''youtube'', ''somrat'', ''batch_2026_01'']]
   \<and> py_int (last (split_on CHR ''_'' ''batch_2026_01'')) = Some 1
   \<and> get_next_batch_num after_explicit ds_dir ''youtube'' ''somrat'' = 2"
  by code_simp

text \<open>
  C8. A dry run and a real run on the same input decide differently when two groups
  share a partition: the real run sees the directory \<open>batch_0001\<close> the first group
  made and gives the second group \<open>batch_0002\<close>; the dry run made no directory and gives
  both groups \<open>batch_0001\<close>. The dry run changes nothing in the output tree.
\<close>

theorem dry_run_differs:
  "out (fst (pack colliding_source [] flat_dir ds_dir None 10 True)) = []
   \<and> dry_pairs (stdout (fst (pack colliding_source [] flat_dir ds_dir None 10 True))) =
     [(flat_dir @ [''wavs'', ''a.wav''], ds_dir @ [''audio'', ''yt'', ''bob'', ''batch_0001'', ''a.wav'']),
      (flat_dir @ [''wavs'', ''b.wav''], ds_dir @ [''audio'', ''yt'', ''bob'', ''batch_0001'', ''b.wav''])]
   \<and> copies (fst (pack colliding_source [] flat_dir ds_dir None 10 False)) =
     [(flat_dir @ [''wavs'', ''a.wav''], ds_dir @ [''audio'', ''yt'', ''bob'', ''batch_0001'', ''a.wav'']),
      (flat_dir @ [''wavs'', ''b.wav''], ds_dir @ [''audio'', ''yt'', ''bob'', ''batch_0002'', ''b.wav''])]"
  by code_simp

section \<open>unpack: the loop over the rows and the run\<close>

lemma unpack_row_step:
  "unpack_row ds dd (joinpath od ''wavs'') dry (st, fps) r =
     (if absent ds dd r
      then (st\<lparr>stdout := stdout st @ [Warn (dataset_file_of dd r)], missing := missing st + 1\<rparr>,
            fps @ [flat_path dd r])
      else if dry
      then (st\<lparr>stdout := stdout st @ [DryCopy (dataset_file_of dd r) (flat_file_of od dd r)]\<rparr>,
            fps @ [flat_path dd r])
      else (st\<lparr>out := flat_copy ds dd od (out st) r,
               copies := copies st @ [(dataset_file_of dd r, flat_file_of od dd r)],
               copied := copied st + 1\<rparr>,
            fps @ [flat_path dd r]))"
  by (simp add: unpack_row_def Let_def absent_def dataset_file_of_def flat_path_def
      flat_file_of_def flat_copy_def)

lemma flat_loop_paths:
  "snd (flat_loop ds dd od dry (st, fps) rs) = fps @ map (flat_path dd) rs"
  by (cases dry; induction rs arbitrary: st fps) (simp_all add: unpack_row_step)

lemma flat_loop_missing:
  "missing (fst (flat_loop ds dd od dry (st, fps) rs)) = missing st + length (filter (absent ds dd) rs)"
  by (cases dry; induction rs arbitrary: st fps) (simp_all add: unpack_row_step)

lemma flat_loop_copied:
  "copied (fst (flat_loop ds dd od dry (st, fps) rs)) =
     copied st + (if dry then 0 else length (filter (\<lambda>r. \<not> absent ds dd r) rs))"
  by (cases dry; induction rs arbitrary: st fps) (simp_all add: unpack_row_step)

lemma flat_loop_writes:
  "writes (fst (flat_loop ds dd od dry (st, fps) rs)) = writes st"
  by (cases dry; induction rs arbitrary: st fps) (simp_all add: unpack_row_step)

lemma flat_loop_stdout:
  "stdout (fst (flat_loop ds dd od dry (st, fps) rs)) =
     stdout st @ map (flat_line ds dd od) (filter (\<lambda>r. dry \<or> absent ds dd r) rs)"
  by (cases dry; induction rs arbitrary: st fps) (simp_all add: unpack_row_step flat_line_def)

lemma flat_loop_copies:
  "copies (fst (flat_loop ds dd od dry (st, fps) rs)) =
     copies st @ (if dry then []
                  else map (\<lambda>r. (dataset_file_of dd r, flat_file_of od dd r))
                         (filter (\<lambda>r. \<not> absent ds dd r) rs))"
  by (cases dry; induction rs arbitrary: st fps) (simp_all add: unpack_row_step)

lemma flat_loop_out:
  "out (fst (flat_loop ds dd od dry (st, fps) rs)) =
     (if dry then out st
      else foldl (flat_copy ds dd od) (out st) (filter (\<lambda>r. \<not> absent ds dd r) rs))"
  by (cases dry; induction rs arbitrary: st fps) (simp_all add: unpack_row_step)

lemma warnings_flat_lines:
  "warnings (map (flat_line ds dd od) (filter (\<lambda>r. dry \<or> absent ds dd r) rs)) =
     map (dataset_file_of dd) (filter (absent ds dd) rs)"
  by (induction rs) (auto simp: warnings_def flat_line_def)

lemma unpack_eq:
  assumes "is_dir ds (joinpath dd ''metadata'')"
    and "load_all_metadata ds (joinpath dd ''metadata'') = Inr df0"
    and "apply_filters df0 sp a b = Inr df"
  shows "unpack ds out0 dd od sp a b dry = (unpacked ds out0 dd od dry df, None)"
proof -
  obtain st1 fps where l: "flat_loop ds dd od dry (ustate0 out0, []) (rows df) = (st1, fps)"
    by (cases "flat_loop ds dd od dry (ustate0 out0, []) (rows df)")
  have fps: "fps = map (flat_path dd) (rows df)"
    using flat_loop_paths[of ds dd od dry "ustate0 out0" "[]" "rows df"] l by simp
  have fst1: "fst (flat_loop ds dd od dry (ustate0 out0, []) (rows df)) = st1"
    using l by simp
  have f: "missing st1 = length (filter (absent ds dd) (rows df))"
      "copied st1 = (if dry then 0 else length (filter (\<lambda>r. \<not> absent ds dd r) (rows df)))"
      "writes st1 = []"
      "stdout st1 = map (flat_line ds dd od) (filter (\<lambda>r. dry \<or> absent ds dd r) (rows df))"
      "copies st1 = (if dry then [] else map (\<lambda>r. (dataset_file_of dd r, flat_file_of od dd r))
                         (filter (\<lambda>r. \<not> absent ds dd r) (rows df)))"
      "out st1 = (if dry then out0 else foldl (flat_copy ds dd od) out0 (filter (\<lambda>r. \<not> absent ds dd r) (rows df)))"
    using flat_loop_missing[of ds dd od dry "ustate0 out0" "[]" "rows df"]
      flat_loop_copied[of ds dd od dry "ustate0 out0" "[]" "rows df"]
      flat_loop_writes[of ds dd od dry "ustate0 out0" "[]" "rows df"]
      flat_loop_stdout[of ds dd od dry "ustate0 out0" "[]" "rows df"]
      flat_loop_copies[of ds dd od dry "ustate0 out0" "[]" "rows df"]
      flat_loop_out[of ds dd od dry "ustate0 out0" "[]" "rows df"]
    unfolding fst1 by (simp_all add: ustate0_def)
  let ?fin = "if dry
      then st1\<lparr>stdout := stdout st1 @
              [DryMetadata (joinpath od ''metadata.csv'') (length (rows (flat_table dd df))), DoneDryRun]\<rparr>
      else st1\<lparr>out := write_table (mkdir_p (out st1) od) (joinpath od ''metadata.csv'') (flat_table dd df),
              writes := writes st1 @ [(joinpath od ''metadata.csv'', flat_table dd df)],
              stdout := stdout st1 @
                [SavedMetadata (joinpath od ''metadata.csv'') (length (rows (flat_table dd df))),
                 Done (copied st1) (missing st1)] @
                (if missing st1 \<noteq> 0 then [Hint] else [])\<rparr>"
  have u: "unpack ds out0 dd od sp a b dry = (?fin, None)"
    using assms l
    by (simp add: unpack_def Let_def fps set_audio_paths_map flat_table_def[symmetric])
  have "?fin = unpacked ds out0 dd od dry df"
    by (cases dry) (auto intro!: ustate.equality simp: f unpacked_def Let_def flat_table_def)
  then show ?thesis using u by simp
qed

section \<open>Fatal errors\<close>

lemma pack_fatal_state:
  assumes "pack src out0 sd od e m dry = (st, Some x)" "pack_preflight x"
  shows "st = pstate0 out0"
proof (cases "load_metadata src sd")
  case (Inl y)
  then show ?thesis using assms by (simp add: pack_def)
next
  case (Inr df)
  show ?thesis
  proof (cases "is_dir src (joinpath sd ''wavs'')")
    case False
    then show ?thesis using assms Inr by (simp add: pack_def)
  next
    case True
    let ?res = "pack_groups src (joinpath sd ''wavs'') od dry (columns df) e m
        (if dry then pstate0 out0 else (pstate0 out0)\<lparr>out := mkdir_p out0 (joinpath od ''metadata'')\<rparr>)
        (groupby (rows df))"
    have "snd ?res = Some x"
      using assms(1) unfolding pack_eq[OF Inr True] by (auto simp: Let_def split: option.splits)
    then have "?res = (fst ?res, Some x)" by (metis prod.collapse)
    from pack_groups_error[OF this] assms(2) show ?thesis by (simp add: pack_preflight_def)
  qed
qed

lemma pack_fatal_triggers:
  "\<not> exists src (joinpath sd ''metadata.csv'') \<Longrightarrow>
     snd (pack src out0 sd od e m dry) = Some MetadataCsvNotFound"
  "exists src (joinpath sd ''metadata.csv'') \<Longrightarrow> read_table src (joinpath sd ''metadata.csv'') = Inr df \<Longrightarrow>
     \<not> set required \<subseteq> set (columns df) \<Longrightarrow>
     snd (pack src out0 sd od e m dry) = Some (MissingColumns (filter (\<lambda>c. c \<notin> set (columns df)) required))"
  "load_metadata src sd = Inr df \<Longrightarrow> \<not> is_dir src (joinpath sd ''wavs'') \<Longrightarrow>
     snd (pack src out0 sd od e m dry) = Some WavsDirNotFound"
  by (auto simp: pack_def load_metadata_def Let_def filter_empty_conv)

lemma unpack_fatal_state:
  assumes "unpack ds out0 dd od sp a b dry = (st, Some x)"
  shows "st = ustate0 out0"
proof (cases "is_dir ds (joinpath dd ''metadata'')")
  case False
  then show ?thesis using assms by (simp add: unpack_def)
next
  case True
  show ?thesis
  proof (cases "load_all_metadata ds (joinpath dd ''metadata'')")
    case (Inl y)
    then show ?thesis using assms True by (simp add: unpack_def)
  next
    case (Inr df0)
    show ?thesis
    proof (cases "apply_filters df0 sp a b")
      case (Inl y)
      then show ?thesis using assms True Inr by (simp add: unpack_def)
    next
      case inr: (Inr df)
      show ?thesis using assms unpack_eq[OF True Inr inr] by simp
    qed
  qed
qed

lemma unpack_fatal_triggers:
  "\<not> is_dir ds (joinpath dd ''metadata'') \<Longrightarrow>
     snd (unpack ds out0 dd od sp a b dry) = Some MetadataDirNotFound"
  "is_dir ds (joinpath dd ''metadata'') \<Longrightarrow> glob_parquet ds (joinpath dd ''metadata'') = [] \<Longrightarrow>
     snd (unpack ds out0 dd od sp a b dry) = Some NoParquetFiles"
  "is_dir ds (joinpath dd ''metadata'') \<Longrightarrow> load_all_metadata ds (joinpath dd ''metadata'') = Inr df0 \<Longrightarrow>
     filter (row_kept sp a b) (rows df0) = [] \<Longrightarrow>
     snd (unpack ds out0 dd od sp a b dry) = Some NoRowsMatch"
  by (auto simp: unpack_def load_all_metadata_def Let_def apply_filters_rows)

text \<open>
  C7. The listed fatal errors are pre-flight. \<open>pack\<close> ends with \<open>MetadataCsvNotFound\<close>,
  \<open>MissingColumns\<close> or \<open>WavsDirNotFound\<close> exactly in the situations the claim names, and a
  run of \<open>pack\<close> that ends with one of them has exit status 1 and leaves the state it
  started in: the output filesystem is unchanged, nothing was copied, nothing was
  written. The same holds for \<open>unpack\<close> and \<open>MetadataDirNotFound\<close>, \<open>NoParquetFiles\<close>
  and \<open>NoRowsMatch\<close>.
\<close>

theorem fatal_errors_preflight:
  "(\<not> exists src (joinpath sd ''metadata.csv'') \<longrightarrow>
      snd (pack src out0 sd od e m dry) = Some MetadataCsvNotFound)
   \<and> (exists src (joinpath sd ''metadata.csv'') \<and> read_table src (joinpath sd ''metadata.csv'') = Inr df
        \<and> \<not> set required \<subseteq> set (columns df) \<longrightarrow>
      snd (pack src out0 sd od e m dry) = Some (MissingColumns (filter (\<lambda>c. c \<notin> set (columns df)) required)))
   \<and> (load_metadata src sd = Inr df \<and> \<not> is_dir src (joinpath sd ''wavs'') \<longrightarrow>
      snd (pack src out0 sd od e m dry) = Some WavsDirNotFound)
   \<and> (\<forall>x. snd (pack src out0 sd od e m dry) = Some x \<and> pack_preflight x \<longrightarrow>
        exit_status (snd (pack src out0 sd od e m dry)) \<noteq> 0
        \<and> out (fst (pack src out0 sd od e m dry)) = out0
        \<and> copies (fst (pack src out0 sd od e m dry)) = []
        \<and> writes (fst (pack src out0 sd od e m dry)) = [])
   \<and> (\<not> is_dir ds (joinpath dd ''metadata'') \<longrightarrow>
      snd (unpack ds out0 dd od sp a b dry) = Some MetadataDirNotFound)
   \<and> (is_dir ds (joinpath dd ''metadata'') \<and> glob_parquet ds (joinpath dd ''metadata'') = [] \<longrightarrow>
      snd (unpack ds out0 dd od sp a b dry) = Some NoParquetFiles)
   \<and> (is_dir ds (joinpath dd ''metadata'') \<and> load_all_metadata ds (joinpath dd ''metadata'') = Inr df0
        \<and> filter (row_kept sp a b) (rows df0) = [] \<longrightarrow>
      snd (unpack ds out0 dd od sp a b dry) = Some NoRowsMatch)
   \<and> (\<forall>x. snd (unpack ds out0 dd od sp a b dry) = Some x \<and> unpack_preflight x \<longrightarrow>
        exit_status (snd (unpack ds out0 dd od sp a b dry)) \<noteq> 0
        \<and> out (fst (unpack ds out0 dd od sp a b dry)) = out0
        \<and> copies (fst (unpack ds out0 dd od sp a b dry)) = []
        \<and> writes (fst (unpack ds out0 dd od sp a b dry)) = [])"
proof -
  have p: "exit_status (snd (pack src out0 sd od e m dry)) \<noteq> 0
        \<and> out (fst (pack src out0 sd od e m dry)) = out0
        \<and> copies (fst (pack src out0 sd od e m dry)) = []
        \<and> writes (fst (pack src out0 sd od e m dry)) = []"
    if "snd (pack src out0 sd od e m dry) = Some x" "pack_preflight x" for x
  proof -
    have "pack src out0 sd od e m dry = (fst (pack src out0 sd od e m dry), Some x)"
      using that(1) by (metis prod.collapse)
    from pack_fatal_state[OF this that(2)] that(1) show ?thesis
      by (simp add: pstate0_def exit_status_def)
  qed
  have u: "exit_status (snd (unpack ds out0 dd od sp a b dry)) \<noteq> 0
        \<and> out (fst (unpack ds out0 dd od sp a b dry)) = out0
        \<and> copies (fst (unpack ds out0 dd od sp a b dry)) = []
        \<and> writes (fst (unpack ds out0 dd od sp a b dry)) = []"
    if "snd (unpack ds out0 dd od sp a b dry) = Some x" for x
  proof -
    have "unpack ds out0 dd od sp a b dry = (fst (unpack ds out0 dd od sp a b dry), Some x)"
      using that(1) by (metis prod.collapse)
    from unpack_fatal_state[OF this] that(1) show ?thesis
      by (simp add: ustate0_def exit_status_def)
  qed
  show ?thesis
    apply (intro conjI impI allI)
    subgoal by (rule pack_fatal_triggers(1))
    subgoal by (elim conjE) (rule pack_fatal_triggers(2))
    subgoal by (elim conjE) (rule pack_fatal_triggers(3))
    subgoal for x using p[of x] by blast
    subgoal for x using p[of x] by blast
    subgoal for x using p[of x] by blast
    subgoal for x using p[of x] by blast
    subgoal by (rule unpack_fatal_triggers(1))
    subgoal by (elim conjE) (rule unpack_fatal_triggers(2))
    subgoal by (elim conjE) (rule unpack_fatal_triggers(3))
    subgoal for x using u[of x] by blast
    subgoal for x using u[of x] by blast
    subgoal for x using u[of x] by blast
    subgoal for x using u[of x] by blast
    done
qed

theorem fatal_errors_preflight_witness:
  "(snd (pack [] [] flat_dir ds_dir None 10 False) = Some MetadataCsvNotFound
    \<and> out (fst (pack [] [] flat_dir ds_dir None 10 False)) = [])
   \<and> (snd (pack two_column_source [] flat_dir ds_dir None 10 False) = Some (MissingColumns [''speaker''])
    \<and> out (fst (pack two_column_source [] flat_dir ds_dir None 10 False)) = [])
   \<and> (snd (pack no_wavs_source [] flat_dir ds_dir None 10 False) = Some WavsDirNotFound
    \<and> out (fst (pack no_wavs_source [] flat_dir ds_dir None 10 False)) = [])
   \<and> (snd (unpack [] [] ds_dir flat_dir None None None False) = Some MetadataDirNotFound
    \<and> out (fst (unpack [] [] ds_dir flat_dir None None None False)) = [])
   \<and> (snd (unpack no_shard_dataset [] ds_dir flat_dir None None None False) = Some NoParquetFiles
    \<and> out (fst (unpack no_shard_dataset [] ds_dir flat_dir None None None False)) = [])
   \<and> (snd (unpack after_explicit [] ds_dir flat_dir (Some ''nobody'') None None False) = Some NoRowsMatch
    \<and> out (fst (unpack after_explicit [] ds_dir flat_dir (Some ''nobody'') None None False)) = [])"
proof -
  let ?t1 = "\<lparr>columns = [''audio_path'', ''audio_source''], rows = []\<rparr>"
  let ?t2 = "\<lparr>columns = required, rows = []\<rparr>"
  let ?t3 = "\<lparr>columns = required, rows = [row_of ''audio/youtube/somrat/batch_2026_01/a.wav'' ''somrat'' ''youtube'']\<rparr>"
  have h1: "\<not> exists [] (joinpath flat_dir ''metadata.csv'')"
    by code_simp
  have h2: "exists two_column_source (joinpath flat_dir ''metadata.csv'')
      \<and> read_table two_column_source (joinpath flat_dir ''metadata.csv'') = Inr ?t1
      \<and> \<not> set required \<subseteq> set (columns ?t1)"
    by code_simp
  have h2': "filter (\<lambda>c. c \<notin> set (columns ?t1)) required = [''speaker'']"
    by code_simp
  have h3: "load_metadata no_wavs_source flat_dir = Inr ?t2 \<and> \<not> is_dir no_wavs_source (joinpath flat_dir ''wavs'')"
    by code_simp
  have h4: "\<not> is_dir [] (joinpath ds_dir ''metadata'')"
    by code_simp
  have h5: "is_dir no_shard_dataset (joinpath ds_dir ''metadata'')
      \<and> glob_parquet no_shard_dataset (joinpath ds_dir ''metadata'') = []"
    by code_simp
  have h6: "is_dir after_explicit (joinpath ds_dir ''metadata'')
      \<and> load_all_metadata after_explicit (joinpath ds_dir ''metadata'') = Inr ?t3
      \<and> filter (row_kept (Some ''nobody'') None None) (rows ?t3) = []"
    by code_simp
  have p: "pack_preflight MetadataCsvNotFound" "pack_preflight (MissingColumns [''speaker''])"
      "pack_preflight WavsDirNotFound"
    by (simp_all add: pack_preflight_def)
  have u: "unpack_preflight MetadataDirNotFound" "unpack_preflight NoParquetFiles"
      "unpack_preflight NoRowsMatch"
    by (simp_all add: unpack_preflight_def)
  have c1: "snd (pack [] [] flat_dir ds_dir None 10 False) = Some MetadataCsvNotFound
    \<and> out (fst (pack [] [] flat_dir ds_dir None 10 False)) = []"
    using fatal_errors_preflight[of "[]" flat_dir "[]" ds_dir None 10 False] h1 p(1) by blast
  have c2: "snd (pack two_column_source [] flat_dir ds_dir None 10 False) = Some (MissingColumns [''speaker''])
    \<and> out (fst (pack two_column_source [] flat_dir ds_dir None 10 False)) = []"
    using fatal_errors_preflight[of two_column_source flat_dir "[]" ds_dir None 10 False ?t1] h2 p(2)
    unfolding h2' by blast
  have c3: "snd (pack no_wavs_source [] flat_dir ds_dir None 10 False) = Some WavsDirNotFound
    \<and> out (fst (pack no_wavs_source [] flat_dir ds_dir None 10 False)) = []"
    using fatal_errors_preflight[of no_wavs_source flat_dir "[]" ds_dir None 10 False ?t2] h3 p(3) by blast
  have c4: "snd (unpack [] [] ds_dir flat_dir None None None False) = Some MetadataDirNotFound
    \<and> out (fst (unpack [] [] ds_dir flat_dir None None None False)) = []"
    using fatal_errors_preflight[where ds = "[]" and dd = ds_dir and ?out0.0 = "[]" and od = flat_dir
        and sp = None and a = None and b = None and dry = False] h4 u(1) by blast
  have c5: "snd (unpack no_shard_dataset [] ds_dir flat_dir None None None False) = Some NoParquetFiles
    \<and> out (fst (unpack no_shard_dataset [] ds_dir flat_dir None None None False)) = []"
    using fatal_errors_preflight[where ds = no_shard_dataset and dd = ds_dir and ?out0.0 = "[]" and od = flat_dir
        and sp = None and a = None and b = None and dry = False] h5 u(2) by blast
  have c6: "snd (unpack after_explicit [] ds_dir flat_dir (Some ''nobody'') None None False) = Some NoRowsMatch
    \<and> out (fst (unpack after_explicit [] ds_dir flat_dir (Some ''nobody'') None None False)) = []"
    using fatal_errors_preflight[where ds = after_explicit and dd = ds_dir and ?out0.0 = "[]" and od = flat_dir
        and sp = "Some ''nobody''" and a = None and b = None and dry = False and ?df0.0 = ?t3] h6 u(3) by blast
  show ?thesis using c1 c2 c3 c4 c5 c6 by blast
qed

section \<open>Chunks and their labels\<close>






section \<open>The flat path\<close>






section \<open>Conservation of rows\<close>

lemma written_simps [simp]:
  "written (st\<lparr>stdout := x\<rparr>) = written st"
  "written (pstate0 f) = []"
  "written ((pstate0 f)\<lparr>out := g\<rparr>) = []"
  by (simp_all add: written_def pstate0_def)







end
